theory Spec2Isabelle
  imports Main
begin

section \<open>Python values and exceptions\<close>

text \<open>
  The values that reach the constructor of an autocomplete: \<^verbatim>\<open>None\<close>, integers, strings,
  opaque objects without an \<^verbatim>\<open>__iter__\<close> attribute (named by a string), lists and tuples.
  Sets, dictionaries and generators are not part of this universe.
\<close>

datatype pyval =
    PyNone
  | PyInt int
  | PyStr string
  | PyObj string
  | PyList "pyval list"
  | PyTuple "pyval list"

text \<open>
  The exceptions that the module raises or lets through. \<open>UnmodelledConversion\<close> is not a
  Python exception: it marks a conversion specifier of printf-style formatting other than
  \<^verbatim>\<open>%s\<close> and \<^verbatim>\<open>%%\<close>, which \<open>py_format\<close> below does not interpret.
\<close>

datatype error =
    TypeError string
  | ValueError string
  | NotImplementedError
  | NoReverseMatch string
  | ImproperlyConfigured string
  | UnmodelledConversion char

text \<open>Sequencing of calls that may raise: the first exception ends the evaluation.\<close>

fun and_then :: "error + 'a \<Rightarrow> ('a \<Rightarrow> error + 'b) \<Rightarrow> error + 'b" where
  "and_then (Inl e) f = Inl e"
| "and_then (Inr x) f = f x"

text \<open>\<^verbatim>\<open>isinstance(v, six.string_types)\<close>\<close>

fun is_string :: "pyval \<Rightarrow> bool" where
  "is_string (PyStr s) = True"
| "is_string v = False"

text \<open>\<^verbatim>\<open>hasattr(v, '__iter__')\<close>; a Python 3 string has the attribute.\<close>

fun has_iter :: "pyval \<Rightarrow> bool" where
  "has_iter (PyStr s) = True"
| "has_iter (PyList xs) = True"
| "has_iter (PyTuple xs) = True"
| "has_iter v = False"

text \<open>\<^verbatim>\<open>list(iter(v))\<close>: the elements of an iterable in iteration order.\<close>

fun py_iter :: "pyval \<Rightarrow> error + pyval list" where
  "py_iter (PyList xs) = Inr xs"
| "py_iter (PyTuple xs) = Inr xs"
| "py_iter (PyStr s) = Inr (map (\<lambda>c. PyStr [c]) s)"
| "py_iter v = Inl (TypeError ''object is not iterable'')"

text \<open>\<^verbatim>\<open>len(v)\<close>\<close>

fun py_len :: "pyval \<Rightarrow> error + nat" where
  "py_len (PyList xs) = Inr (length xs)"
| "py_len (PyTuple xs) = Inr (length xs)"
| "py_len (PyStr s) = Inr (length s)"
| "py_len v = Inl (TypeError ''object has no len()'')"

text \<open>
  \<^verbatim>\<open>fmt % args\<close> for string arguments, read left to right. \<^verbatim>\<open>%s\<close> takes the next
  argument, \<^verbatim>\<open>%%\<close> is a literal percent sign. Too few arguments, arguments left over at
  the end and a lone \<^verbatim>\<open>%\<close> at the end raise as in Python.
\<close>

fun py_format :: "string \<Rightarrow> string list \<Rightarrow> error + string" where
  "py_format [] [] = Inr []"
| "py_format [] (a # as) =
     Inl (TypeError ''not all arguments converted during string formatting'')"
| "py_format [c] as =
     (if c = CHR ''%'' then Inl (ValueError ''incomplete format'')
      else and_then (py_format [] as) (\<lambda>r. Inr (c # r)))"
| "py_format (c # d # ds) as =
     (if c \<noteq> CHR ''%'' then and_then (py_format (d # ds) as) (\<lambda>r. Inr (c # r))
      else if d = CHR ''%'' then and_then (py_format ds as) (\<lambda>r. Inr (CHR ''%'' # r))
      else if d = CHR ''s'' then
        (case as of
           [] \<Rightarrow> Inl (TypeError ''not enough arguments for format string'')
         | a # as' \<Rightarrow> and_then (py_format ds as') (\<lambda>r. Inr (a @ r)))
      else Inl (UnmodelledConversion d))"

text \<open>
  \<^verbatim>\<open>fmt % obj\<close> where \<open>obj\<close> is one object that is neither a tuple nor a string and
  defines \<^verbatim>\<open>__getitem__\<close>, as the lazy translation object does; \<open>a\<close> is the text of
  \<^verbatim>\<open>str(obj)\<close>. The first \<^verbatim>\<open>%s\<close> takes the object and a second one finds no argument.
  Python takes such an object as a mapping and does not ask that it is used: a template
  without \<^verbatim>\<open>%s\<close> is returned as it is.
\<close>

fun py_format_lazy :: "string \<Rightarrow> string \<Rightarrow> error + string" where
  "py_format_lazy [] a = Inr []"
| "py_format_lazy [c] a =
     (if c = CHR ''%'' then Inl (ValueError ''incomplete format'') else Inr [c])"
| "py_format_lazy (c # d # ds) a =
     (if c \<noteq> CHR ''%'' then and_then (py_format_lazy (d # ds) a) (\<lambda>r. Inr (c # r))
      else if d = CHR ''%'' then and_then (py_format_lazy ds a) (\<lambda>r. Inr (CHR ''%'' # r))
      else if d = CHR ''s'' then and_then (py_format ds []) (\<lambda>r. Inr (a @ r))
      else Inl (UnmodelledConversion d))"

section \<open>Services of the web framework\<close>

text \<open>
  The module calls four functions of the framework. Three are parameters of the model:
  \<^item> \<open>reverse name args kwargs\<close> resolves a named route and raises \<open>NoReverseMatch\<close>
    when there is none;
  \<^item> \<open>gettext_lazy\<close> (imported as \<^verbatim>\<open>_\<close>) gives a lazy object; the model holds the text
    it renders to, the message in the active language;
  \<^item> \<open>force_str\<close> is the textual representation of a choice.
\<close>

record 'c framework =
  reverse :: "string \<Rightarrow> string list option \<Rightarrow> (string \<times> string) list option \<Rightarrow> error + string"
  gettext_lazy :: "string \<Rightarrow> string"
  force_str :: "'c \<Rightarrow> string"

text \<open>
  Modelled from the spec: \<^verbatim>\<open>django.utils.html.escape\<close>, the text-escaping utility, is not
  part of this repository. The spec asks that every literal \<^verbatim>\<open><\<close>, \<^verbatim>\<open>>\<close>, \<^verbatim>\<open>&\<close> and
  quote character is rendered inert; the entities are the ones of the framework.
\<close>

fun escape_char :: "char \<Rightarrow> string" where
  \<open>escape_char c =
     (if c = CHR ''&'' then ''&amp;''
      else if c = CHR ''<'' then ''&lt;''
      else if c = CHR ''>'' then ''&gt;''
      else if c = CHR ''"'' then ''&quot;''
      else if c = CHR 0x27 then ''&#x27;''
      else [c])\<close>

definition escape :: "string \<Rightarrow> string" where
  "escape s = concat (map escape_char s)"

section \<open>AutocompleteInterface\<close>

text \<open>The two attributes of an instance.\<close>

record 'r autocomplete =
  request :: "'r option"
  "values" :: pyval

text \<open>\<^verbatim>\<open>__init__(self, request=None, values=None)\<close>\<close>

definition init :: "'r option \<Rightarrow> pyval \<Rightarrow> 'r autocomplete" where
  "init req vals =
     \<lparr>request = req,
      values =
        (if vals = PyNone then PyList []
         else if is_string vals \<or> \<not> has_iter vals then PyList [vals]
         else vals)\<rparr>"

text \<open>
  \<^verbatim>\<open>raise NotImplemented()\<close>: \<^verbatim>\<open>NotImplemented\<close> is a constant, not an exception class.
  Calling it raises this \<^verbatim>\<open>TypeError\<close> before the \<^verbatim>\<open>raise\<close> statement runs.
\<close>

definition NotImplemented_called :: error where
  "NotImplemented_called =
     TypeError ([CHR 0x27] @ ''NotImplementedType'' @ [CHR 0x27] @ '' object is not callable'')"

text \<open>
  A method that takes only \<open>self\<close> returns its result, or the exception it raises, together
  with the instance as the call leaves it.
\<close>

definition AutocompleteInterface_autocomplete_html ::
  "'r autocomplete \<Rightarrow> (error + string) \<times> 'r autocomplete" where
  "AutocompleteInterface_autocomplete_html self = (Inl NotImplemented_called, self)"

definition AutocompleteInterface_validate_values ::
  "'r autocomplete \<Rightarrow> (error + bool) \<times> 'r autocomplete" where
  "AutocompleteInterface_validate_values self = (Inl NotImplemented_called, self)"

definition AutocompleteInterface_choices_for_values ::
  "'r autocomplete \<Rightarrow> (error + 'c list) \<times> 'r autocomplete" where
  "AutocompleteInterface_choices_for_values self = (Inl NotImplemented_called, self)"

section \<open>AutocompleteBase\<close>

text \<open>
  A class that derives from \<^verbatim>\<open>AutocompleteBase\<close>: its name, the class attributes and the
  methods meant to be overridden. The two retrieval methods belong to subclasses that are
  not part of the module; they read the instance and return a list of choices or raise.
\<close>

record ('r, 'c) autocomplete_class =
  class_name :: string
  choice_html_format :: string
  empty_html_format :: string
  autocomplete_html_format :: string
  add_another_url_name :: "string option"
  add_another_url_kwargs :: "(string \<times> string) list option"
  choices_for_request :: "'r autocomplete \<Rightarrow> error + 'c list"
  choices_for_values :: "'r autocomplete \<Rightarrow> error + 'c list"
  choice_value :: "'c \<Rightarrow> string"
  choice_label :: "'c \<Rightarrow> string"

text \<open>The class as the module declares it.\<close>

definition AutocompleteBase :: "'c framework \<Rightarrow> ('r, 'c) autocomplete_class" where
  \<open>AutocompleteBase fw =
     \<lparr>class_name = ''AutocompleteBase'',
      choice_html_format = ''<span data-value="%s">%s</span>'',
      empty_html_format = ''<span class="block"><em>%s</em></span>'',
      autocomplete_html_format = ''%s'',
      add_another_url_name = None,
      add_another_url_kwargs = None,
      choices_for_request = (\<lambda>self. Inl NotImplemented_called),
      choices_for_values = (\<lambda>self. fst (AutocompleteInterface_choices_for_values self)),
      choice_value = force_str fw,
      choice_label = force_str fw\<rparr>\<close>

text \<open>\<^verbatim>\<open>get_absolute_url\<close> reads only the name of the class.\<close>

definition get_absolute_url :: "'c framework \<Rightarrow> ('r, 'c) autocomplete_class \<Rightarrow> error + string" where
  "get_absolute_url fw cls =
     (case reverse fw ''autocomplete_light_autocomplete'' (Some [class_name cls]) None of
        Inr url \<Rightarrow> Inr url
      | Inl (NoReverseMatch m) \<Rightarrow>
          and_then
            (py_format
               (''URL lookup for autocomplete '' @ [CHR 0x27] @ ''%s'' @ [CHR 0x27] @
                '' failed. Have you included autocomplete_light.urls in your urls.py?'')
               [class_name cls])
            (\<lambda>msg. Inl (ImproperlyConfigured msg))
      | Inl e \<Rightarrow> Inl e)"

text \<open>\<^verbatim>\<open>if self.add_another_url_name:\<close> holds for a string that is not empty.\<close>

fun truthy :: "string option \<Rightarrow> bool" where
  "truthy None = False"
| "truthy (Some s) = (s \<noteq> [])"

definition get_add_another_url ::
  "'c framework \<Rightarrow> ('r, 'c) autocomplete_class \<Rightarrow> error + string option" where
  "get_add_another_url fw cls =
     (if truthy (add_another_url_name cls) then
        and_then (reverse fw (the (add_another_url_name cls)) None (add_another_url_kwargs cls))
          (\<lambda>url. Inr (Some (url @ ''?_popup=1'')))
      else Inr None)"

definition validate_values ::
  "('r, 'c) autocomplete_class \<Rightarrow> 'r autocomplete \<Rightarrow> (error + bool) \<times> 'r autocomplete" where
  "validate_values cls self =
     (and_then (choices_for_values cls self) (\<lambda>cs.
      and_then (py_len (values self)) (\<lambda>n.
      Inr (length cs = n))), self)"

definition choice_html :: "('r, 'c) autocomplete_class \<Rightarrow> 'c \<Rightarrow> error + string" where
  "choice_html cls choice =
     py_format (choice_html_format cls)
       [escape (choice_value cls choice), escape (choice_label cls choice)]"

text \<open>The list comprehension: \<open>choice_html\<close> of each choice, in order.\<close>

fun choice_htmls :: "('r, 'c) autocomplete_class \<Rightarrow> 'c list \<Rightarrow> error + string list" where
  "choice_htmls cls [] = Inr []"
| "choice_htmls cls (c # cs) =
     and_then (choice_html cls c) (\<lambda>h.
     and_then (choice_htmls cls cs) (\<lambda>hs.
     Inr (h # hs)))"

definition autocomplete_html ::
  "'c framework \<Rightarrow> ('r, 'c) autocomplete_class \<Rightarrow> 'r autocomplete
     \<Rightarrow> (error + string) \<times> 'r autocomplete" where
  "autocomplete_html fw cls self =
     (and_then (choices_for_request cls self) (\<lambda>cs.
      and_then (choice_htmls cls cs) (\<lambda>hs.
      and_then
        (if concat hs = [] then
           py_format_lazy (empty_html_format cls) (gettext_lazy fw ''No matches found'')
         else Inr (concat hs)) (\<lambda>html.
      py_format (autocomplete_html_format cls) [html]))), self)"

section \<open>A framework without routes or translations, and two subclasses\<close>

text \<open>
  No route is registered, no translation is active, and the choices are strings, whose
  textual representation is the string itself.
\<close>

definition plain_framework :: "string framework" where
  "plain_framework =
     \<lparr>reverse = (\<lambda>name args kwargs. Inl (NoReverseMatch name)),
      gettext_lazy = (\<lambda>msg. msg),
      force_str = (\<lambda>s. s)\<rparr>"

text \<open>A subclass that proposes the given choices for every request and for every values.\<close>

definition fixed_choices :: "string list \<Rightarrow> (unit, string) autocomplete_class" where
  "fixed_choices cs =
     (AutocompleteBase plain_framework)
       \<lparr>class_name := ''FixedChoices'',
        choices_for_request := (\<lambda>self. Inr cs),
        choices_for_values := (\<lambda>self. Inr cs)\<rparr>"

text \<open>A subclass whose choice template has the two slots and no markup of its own.\<close>

definition bare_slots :: "(unit, string) autocomplete_class" where
  "bare_slots =
     (fixed_choices [''''])\<lparr>class_name := ''BareSlots'', choice_html_format := ''%s%s''\<rparr>"

text \<open>
  A framework with two routes: the autocomplete endpoint, which takes the name of the
  class, and a page that adds an author.
\<close>

definition routed_framework :: "string framework" where
  "routed_framework =
     \<lparr>reverse = (\<lambda>name args kwargs.
        if name = ''autocomplete_light_autocomplete'' then
          (case args of
             Some [n] \<Rightarrow> Inr (''/autocomplete/'' @ n @ ''/'')
           | _ \<Rightarrow> Inl (NoReverseMatch name))
        else if name = ''add_author'' then Inr ''/author/add/''
        else Inl (NoReverseMatch name)),
      gettext_lazy = (\<lambda>msg. msg),
      force_str = (\<lambda>s. s)\<rparr>"


section \<open>Formatting and escaping\<close>

lemma and_then_Inr [simp]: "and_then x Inr = x"
  by (cases x) simp_all

lemma and_then_assoc: "and_then (and_then x f) g = and_then x (\<lambda>r. and_then (f r) g)"
  by (cases x) simp_all

lemma py_format_char:
  "c \<noteq> CHR ''%'' \<Longrightarrow> py_format (c # t) as = and_then (py_format t as) (\<lambda>r. Inr (c # r))"
  by (cases t) simp_all

text \<open>Text without a percent sign is copied to the output.\<close>

lemma py_format_literal:
  "CHR ''%'' \<notin> set l \<Longrightarrow> py_format (l @ t) as = and_then (py_format t as) (\<lambda>r. Inr (l @ r))"
proof (induction l)
  case Nil
  then show ?case by simp
next
  case (Cons c l)
  then have "c \<noteq> CHR ''%''" by auto
  then have "py_format ((c # l) @ t) as = and_then (py_format (l @ t) as) (\<lambda>r. Inr (c # r))"
    by (simp add: py_format_char)
  also have "\<dots> = and_then (py_format t as) (\<lambda>r. Inr ((c # l) @ r))"
    using Cons by (simp add: and_then_assoc)
  finally show ?case .
qed

lemma py_format_literal_end: "CHR ''%'' \<notin> set l \<Longrightarrow> py_format l [] = Inr l"
  using py_format_literal [of l "[]" "[]"] by simp

lemma py_format_two_slots:
  assumes "CHR ''%'' \<notin> set l0" "CHR ''%'' \<notin> set l1" "CHR ''%'' \<notin> set l2"
  shows "py_format (l0 @ ''%s'' @ l1 @ ''%s'' @ l2) [a, b] = Inr (l0 @ a @ l1 @ b @ l2)"
  using assms by (simp add: py_format_literal py_format_literal_end)

lemma py_format_choice_default:
  \<open>py_format ''<span data-value="%s">%s</span>'' [a, b] =
     Inr (''<span data-value="'' @ a @ ''">'' @ b @ ''</span>'')\<close>
  by simp


lemma escape_char_inert:
  \<open>set (escape_char c) \<inter> {CHR ''<'', CHR ''>'', CHR ''"'', CHR 0x27} = {}\<close>
  by simp

lemma escape_inert:
  \<open>set (escape s) \<inter> {CHR ''<'', CHR ''>'', CHR ''"'', CHR 0x27} = {}\<close>
  unfolding escape_def using escape_char_inert by (induction s) auto

section \<open>The list of rendered choices\<close>

lemma choice_htmls_map:
  "map (choice_html cls) cs = map Inr hs \<Longrightarrow> choice_htmls cls cs = Inr hs"
  by (induction cs arbitrary: hs) auto


lemma choice_html_default:
  assumes \<open>choice_html_format cls = ''<span data-value="%s">%s</span>''\<close>
  shows \<open>choice_html cls c =
           Inr (''<span data-value="'' @ escape (choice_value cls c) @ ''">'' @
                escape (choice_label cls c) @ ''</span>'')\<close>
  unfolding choice_html_def assms by (rule py_format_choice_default)

lemma render_of_choices:
  assumes "choices_for_request cls self = Inr cs"
    and "map (choice_html cls) cs = map Inr hs"
    and "concat hs \<noteq> []"
  shows "autocomplete_html fw cls self = (py_format (autocomplete_html_format cls) [concat hs], self)"
  using assms by (simp add: autocomplete_html_def choice_htmls_map del: concat_eq_Nil_conv)

lemma render_default_choice_template:
  assumes fmt: \<open>choice_html_format cls = ''<span data-value="%s">%s</span>''\<close>
    and req: "choices_for_request cls self = Inr cs"
    and ne: "cs \<noteq> []"
  shows "\<exists>hs. map (choice_html cls) cs = map Inr hs \<and> concat hs \<noteq> [] \<and>
           autocomplete_html fw cls self =
             (py_format (autocomplete_html_format cls) [concat hs], self)"
proof -
  define span where
    \<open>span = (\<lambda>c. ''<span data-value="'' @ escape (choice_value cls c) @ ''">'' @
                escape (choice_label cls c) @ ''</span>'')\<close>
  have one: "choice_html cls c = Inr (span c)" for c
    unfolding span_def using fmt by (rule choice_html_default)
  have all: "map (choice_html cls) cs = map Inr (map span cs)"
    by (simp add: one)
  obtain c cs' where "cs = c # cs'"
    using ne by (cases cs) auto
  then have nonempty: "concat (map span cs) \<noteq> []"
    by (simp add: span_def)
  from render_of_choices [OF req all nonempty] all nonempty show ?thesis
    by blast
qed

lemma render_fixed_a_b:
  \<open>autocomplete_html plain_framework (fixed_choices [''a'', ''b'']) self =
     (Inr ''<span data-value="a">a</span><span data-value="b">b</span>'', self)\<close>
  by (simp add: autocomplete_html_def fixed_choices_def AutocompleteBase_def
      plain_framework_def choice_html_def escape_def)

section \<open>Stored values\<close>

lemma py_len_iter: "py_iter x = Inr vs \<Longrightarrow> py_len x = Inr (length vs)"
  by (cases x) auto

lemma init_iterable: "\<exists>vs. py_iter (values (init req v)) = Inr vs"
  by (cases v) (simp_all add: init_def)

section \<open>Construction\<close>

text \<open>
  C1. Construction normalizes the values argument by three cases: absent values give the
  empty list; a single value that is a string or has no \<^verbatim>\<open>__iter__\<close> attribute gives the
  list of that one value; every other iterable is stored as it is, so its elements keep
  their order and their duplicates. The request is stored as given.
\<close>

theorem init_normalizes_values:
  "values (init req PyNone) = PyList []
   \<and> (v \<noteq> PyNone \<and> (is_string v \<or> \<not> has_iter v) \<longrightarrow> values (init req v) = PyList [v])
   \<and> (has_iter v \<and> \<not> is_string v \<longrightarrow>
        values (init req v) = v \<and> py_iter (values (init req v)) = py_iter v)
   \<and> request (init req v) = req"
  by (cases v) (simp_all add: init_def)

theorem init_normalizes_values_witness:
  "PyInt 7 \<noteq> PyNone \<and> \<not> has_iter (PyInt 7)
   \<and> values (init (None :: unit option) (PyInt 7)) = PyList [PyInt 7]
   \<and> has_iter (PyList [PyInt 1, PyInt 1, PyInt 2]) \<and> \<not> is_string (PyList [PyInt 1, PyInt 1, PyInt 2])
   \<and> py_iter (values (init (None :: unit option) (PyList [PyInt 1, PyInt 1, PyInt 2])))
       = Inr [PyInt 1, PyInt 1, PyInt 2]"
  using init_normalizes_values [of "None :: unit option" "PyInt 7"]
    init_normalizes_values [of "None :: unit option" "PyList [PyInt 1, PyInt 1, PyInt 2]"]
  by simp

text \<open>
  The third case as the claim words it, "every other iterable", fails for a string: it is
  iterable, its elements are its characters, and the stored list holds the whole string.
\<close>

theorem init_string_counterexample:
  "PyStr ''ab'' \<noteq> PyNone \<and> has_iter (PyStr ''ab'')
   \<and> py_iter (PyStr ''ab'') = Inr [PyStr ''a'', PyStr ''b'']
   \<and> py_iter (values (init (None :: unit option) (PyStr ''ab''))) = Inr [PyStr ''ab'']"
  by (simp add: init_def)

text \<open>
  C10. For every string passed as the values argument, the stored values are a list of one
  element, the whole string: a string is wrapped like a scalar although it is iterable, and
  is never split into its characters.
\<close>

theorem init_string_wrapped:
  "values (init req (PyStr s)) = PyList [PyStr s]
   \<and> py_iter (values (init req (PyStr s))) = Inr [PyStr s]
   \<and> has_iter (PyStr s)"
  by (simp add: init_def)

theorem init_string_wrapped_witness:
  "values (init (None :: unit option) (PyStr ''ab'')) = PyList [PyStr ''ab'']"
  using init_string_wrapped [of "None :: unit option" "''ab''"] by simp

section \<open>Validation\<close>

text \<open>
  C2. For every constructed instance, \<open>validate_values\<close> returns true if and only if the
  list returned by \<open>choices_for_values\<close> has as many elements as the stored values. Only
  the two lengths are compared: no value is looked up among the choices.
\<close>

theorem validate_values_cardinality:
  assumes "choices_for_values cls (init req v) = Inr cs"
  shows "\<exists>vs. py_iter (values (init req v)) = Inr vs
           \<and> validate_values cls (init req v) = (Inr (length cs = length vs), init req v)"
proof -
  obtain vs where vs: "py_iter (values (init req v)) = Inr vs"
    using init_iterable by blast
  then have "py_len (values (init req v)) = Inr (length vs)"
    by (rule py_len_iter)
  with assms have "validate_values cls (init req v) = (Inr (length cs = length vs), init req v)"
    by (simp add: validate_values_def)
  with vs show ?thesis by blast
qed

text \<open>Two values and twice the same unrelated choice: the values are found valid.\<close>

theorem validate_values_cardinality_witness:
  "choices_for_values (fixed_choices [''x'', ''x'']) (init None (PyList [PyInt 1, PyInt 2]))
     = Inr [''x'', ''x'']
   \<and> fst (validate_values (fixed_choices [''x'', ''x'']) (init None (PyList [PyInt 1, PyInt 2])))
     = Inr True"
proof -
  let ?self = "init None (PyList [PyInt 1, PyInt 2]) :: unit autocomplete"
  have h: "choices_for_values (fixed_choices [''x'', ''x'']) ?self = Inr [''x'', ''x'']"
    by (simp add: fixed_choices_def)
  from validate_values_cardinality [OF h] obtain vs
    where vs: "py_iter (values ?self) = Inr vs"
      and r: "validate_values (fixed_choices [''x'', ''x'']) ?self
                = (Inr (length [''x'', ''x''] = length vs), ?self)"
    by blast
  have "py_iter (values ?self) = Inr [PyInt 1, PyInt 2]"
    by (simp add: init_def)
  with vs have "vs = [PyInt 1, PyInt 2]" by simp
  with r h show ?thesis by simp
qed

section \<open>Rendering\<close>

text \<open>
  C3. When \<open>choices_for_request\<close> returns choices whose \<open>choice_html\<close>, concatenated in
  the order returned, is not the empty string, \<open>autocomplete_html\<close> returns that
  concatenation wrapped in the list template. Under the default choice template this is so
  for every list of choices that is not empty. With the default templates and the choices
  a and b the result is the two spans, a first.
\<close>

theorem render_concatenates_choices:
  \<open>(choices_for_request cls self = Inr cs \<and> map (choice_html cls) cs = map Inr hs
      \<and> concat hs \<noteq> [] \<longrightarrow>
      autocomplete_html fw cls self = (py_format (autocomplete_html_format cls) [concat hs], self))
   \<and> (choice_html_format cls = ''<span data-value="%s">%s</span>''
      \<and> choices_for_request cls self = Inr cs \<and> cs \<noteq> [] \<longrightarrow>
      (\<exists>hs. map (choice_html cls) cs = map Inr hs \<and> concat hs \<noteq> [] \<and>
         autocomplete_html fw cls self =
           (py_format (autocomplete_html_format cls) [concat hs], self)))
   \<and> autocomplete_html plain_framework (fixed_choices [''a'', ''b'']) self' =
       (Inr ''<span data-value="a">a</span><span data-value="b">b</span>'', self')\<close>
  using render_of_choices [of cls self cs hs fw]
    render_default_choice_template [of cls self cs fw]
    render_fixed_a_b [of self']
  by blast

theorem render_concatenates_choices_witness:
  \<open>choices_for_request (fixed_choices [''a'']) (init None PyNone) = Inr [''a'']
   \<and> map (choice_html (fixed_choices [''a''])) [''a''] = map Inr [''<span data-value="a">a</span>'']
   \<and> concat [''<span data-value="a">a</span>''] \<noteq> []
   \<and> autocomplete_html plain_framework (fixed_choices [''a'']) (init None PyNone) =
       (Inr ''<span data-value="a">a</span>'', init None PyNone)\<close>
proof -
  let ?cls = "fixed_choices [''a'']"
  let ?self = "init None PyNone :: unit autocomplete"
  have h1: "choices_for_request ?cls ?self = Inr [''a'']"
    by (simp add: fixed_choices_def)
  have h2: \<open>map (choice_html ?cls) [''a''] = map Inr [''<span data-value="a">a</span>'']\<close>
    by (simp add: fixed_choices_def AutocompleteBase_def plain_framework_def
        choice_html_def escape_def)
  have h3: \<open>concat [''<span data-value="a">a</span>''] \<noteq> []\<close>
    by simp
  have fmt: "py_format (autocomplete_html_format ?cls) [a] = Inr a" for a
    by (simp add: fixed_choices_def AutocompleteBase_def)
  from render_concatenates_choices
    [of ?cls ?self "[''a'']" \<open>[''<span data-value="a">a</span>'']\<close> plain_framework]
    h1 h2 h3
  have \<open>autocomplete_html plain_framework ?cls ?self =
          (py_format (autocomplete_html_format ?cls) [concat (''<span data-value="a">a</span>'' # [])],
           ?self)\<close>
    by blast
  then have \<open>autocomplete_html plain_framework ?cls ?self =
          (Inr ''<span data-value="a">a</span>'', ?self)\<close>
    by (simp add: fmt)
  with h1 h2 h3 show ?thesis by blast
qed

text \<open>
  As the claim words it, for every list of choices that is not empty, the statement fails:
  with the template \<^verbatim>\<open>%s%s\<close> and one choice whose text is empty, the concatenation is the
  empty string, and the empty-state message is rendered in its place.
\<close>

theorem render_nonempty_choices_counterexample:
  \<open>choices_for_request bare_slots (init None PyNone) = Inr ['''']
   \<and> [''''] \<noteq> ([] :: string list)
   \<and> map (choice_html bare_slots) [''''] = map Inr ['''']
   \<and> concat [''''] = ''''
   \<and> py_format (autocomplete_html_format bare_slots) [''''] = Inr ''''
   \<and> fst (autocomplete_html plain_framework bare_slots (init None PyNone)) =
       Inr ''<span class="block"><em>No matches found</em></span>''\<close>
  by (simp add: autocomplete_html_def bare_slots_def fixed_choices_def AutocompleteBase_def
      plain_framework_def choice_html_def escape_def)



section \<open>One choice\<close>

text \<open>
  C5. For every choice and every choice template made of text around two \<^verbatim>\<open>%s\<close> slots,
  \<open>choice_html\<close> puts the escaped value in the first slot and the escaped label in the
  second, each escaped on its own. The escaped texts hold no \<^verbatim>\<open><\<close>, \<^verbatim>\<open>>\<close> or quote
  character, an ampersand becomes an entity, and the text \<^verbatim>\<open><script>\<close> becomes
  \<^verbatim>\<open>&lt;script&gt;\<close>.
\<close>

theorem choice_html_escapes:
  assumes "choice_html_format cls = l0 @ ''%s'' @ l1 @ ''%s'' @ l2"
    and "CHR ''%'' \<notin> set l0" and "CHR ''%'' \<notin> set l1" and "CHR ''%'' \<notin> set l2"
  shows \<open>choice_html cls c =
           Inr (l0 @ escape (choice_value cls c) @ l1 @ escape (choice_label cls c) @ l2)
         \<and> set (escape (choice_value cls c)) \<inter> {CHR ''<'', CHR ''>'', CHR ''"'', CHR 0x27} = {}
         \<and> set (escape (choice_label cls c)) \<inter> {CHR ''<'', CHR ''>'', CHR ''"'', CHR 0x27} = {}
         \<and> escape ''<script>'' = ''&lt;script&gt;''
         \<and> escape ''&'' = ''&amp;''\<close>
proof -
  have "choice_html cls c =
          Inr (l0 @ escape (choice_value cls c) @ l1 @ escape (choice_label cls c) @ l2)"
    unfolding choice_html_def assms(1) using assms(2-4) by (rule py_format_two_slots)
  moreover have \<open>escape ''<script>'' = ''&lt;script&gt;''\<close> \<open>escape ''&'' = ''&amp;''\<close>
    by (simp_all add: escape_def)
  ultimately show ?thesis
    using escape_inert by blast
qed

text \<open>The default template and a choice whose text is a script tag.\<close>

theorem choice_html_escapes_witness:
  \<open>choice_html_format (AutocompleteBase plain_framework :: (unit, string) autocomplete_class) =
     ''<span data-value="'' @ ''%s'' @ ''">'' @ ''%s'' @ ''</span>''
   \<and> CHR ''%'' \<notin> set ''<span data-value="'' \<and> CHR ''%'' \<notin> set ''">''
   \<and> CHR ''%'' \<notin> set ''</span>''
   \<and> choice_html (AutocompleteBase plain_framework :: (unit, string) autocomplete_class)
         ''<script>'' =
       Inr ''<span data-value="&lt;script&gt;">&lt;script&gt;</span>''\<close>
proof -
  let ?cls = "AutocompleteBase plain_framework :: (unit, string) autocomplete_class"
  have h1: \<open>choice_html_format ?cls =
      ''<span data-value="'' @ ''%s'' @ ''">'' @ ''%s'' @ ''</span>''\<close>
    by (simp add: AutocompleteBase_def)
  have h2: \<open>CHR ''%'' \<notin> set ''<span data-value="''\<close>
    and h3: \<open>CHR ''%'' \<notin> set ''">''\<close>
    and h4: \<open>CHR ''%'' \<notin> set ''</span>''\<close>
    by simp_all
  have str: "choice_value ?cls ''<script>'' = ''<script>''"
    "choice_label ?cls ''<script>'' = ''<script>''"
    by (simp_all add: AutocompleteBase_def plain_framework_def)
  from choice_html_escapes [OF h1 h2 h3 h4, of "''<script>''"]
  have \<open>choice_html ?cls ''<script>'' =
          Inr (''<span data-value="'' @ escape ''<script>'' @ ''">'' @ escape ''<script>'' @
               ''</span>'')\<close>
    and \<open>escape ''<script>'' = ''&lt;script&gt;''\<close>
    by (simp_all only: str)
  then have \<open>choice_html ?cls ''<script>'' =
          Inr ''<span data-value="&lt;script&gt;">&lt;script&gt;</span>''\<close>
    by simp
  with h1 h2 h3 h4 show ?thesis by blast
qed

section \<open>Methods left to subclasses\<close>

text \<open>
  C6. Each of the four methods left to subclasses ends in an exception and returns nothing.
  The exception is the \<^verbatim>\<open>TypeError\<close> of calling the constant \<^verbatim>\<open>NotImplemented\<close>, not a
  \<^verbatim>\<open>NotImplementedError\<close>.
\<close>

theorem not_implemented_raises_type_error:
  "fst (AutocompleteInterface_autocomplete_html self) =
     Inl (TypeError ([CHR 0x27] @ ''NotImplementedType'' @ [CHR 0x27] @ '' object is not callable''))
   \<and> fst (AutocompleteInterface_validate_values self) =
     Inl (TypeError ([CHR 0x27] @ ''NotImplementedType'' @ [CHR 0x27] @ '' object is not callable''))
   \<and> fst (AutocompleteInterface_choices_for_values self) =
     (Inl (TypeError ([CHR 0x27] @ ''NotImplementedType'' @ [CHR 0x27] @ '' object is not callable''))
       :: error + 'c list)
   \<and> choices_for_values (AutocompleteBase fw) self =
     Inl (TypeError ([CHR 0x27] @ ''NotImplementedType'' @ [CHR 0x27] @ '' object is not callable''))
   \<and> choices_for_request (AutocompleteBase fw) self =
     Inl (TypeError ([CHR 0x27] @ ''NotImplementedType'' @ [CHR 0x27] @ '' object is not callable''))
   \<and> fst (AutocompleteInterface_autocomplete_html self) \<noteq> Inl NotImplementedError
   \<and> fst (AutocompleteInterface_validate_values self) \<noteq> Inl NotImplementedError
   \<and> choices_for_values (AutocompleteBase fw) self \<noteq> Inl NotImplementedError
   \<and> choices_for_request (AutocompleteBase fw) self \<noteq> Inl NotImplementedError"
  by (simp add: AutocompleteInterface_autocomplete_html_def
      AutocompleteInterface_validate_values_def AutocompleteInterface_choices_for_values_def
      AutocompleteBase_def NotImplemented_called_def)

section \<open>Routes\<close>

text \<open>
  C7. When the lookup of the autocomplete route for the name of the class finds no route,
  \<open>get_absolute_url\<close> raises \<^verbatim>\<open>ImproperlyConfigured\<close> with a message that holds the name
  of the class. When the lookup gives a URL, \<open>get_absolute_url\<close> returns it.
\<close>

theorem get_absolute_url_routes:
  "(reverse fw ''autocomplete_light_autocomplete'' (Some [class_name cls]) None
      = Inl (NoReverseMatch m) \<longrightarrow>
      get_absolute_url fw cls =
        Inl (ImproperlyConfigured
          (''URL lookup for autocomplete '' @ [CHR 0x27] @ class_name cls @ [CHR 0x27] @
           '' failed. Have you included autocomplete_light.urls in your urls.py?'')))
   \<and> (reverse fw ''autocomplete_light_autocomplete'' (Some [class_name cls]) None = Inr url \<longrightarrow>
      get_absolute_url fw cls = Inr url)"
  by (simp add: get_absolute_url_def)

theorem get_absolute_url_routes_witness:
  "reverse plain_framework ''autocomplete_light_autocomplete''
     (Some [class_name (fixed_choices [])]) None
     = Inl (NoReverseMatch ''autocomplete_light_autocomplete'')
   \<and> get_absolute_url plain_framework (fixed_choices []) =
       Inl (ImproperlyConfigured
         (''URL lookup for autocomplete '' @ [CHR 0x27] @ ''FixedChoices'' @ [CHR 0x27] @
          '' failed. Have you included autocomplete_light.urls in your urls.py?''))
   \<and> reverse routed_framework ''autocomplete_light_autocomplete''
       (Some [class_name (fixed_choices [])]) None
     = Inr ''/autocomplete/FixedChoices/''
   \<and> get_absolute_url routed_framework (fixed_choices []) = Inr ''/autocomplete/FixedChoices/''"
proof -
  have n: "class_name (fixed_choices []) = ''FixedChoices''"
    by (simp add: fixed_choices_def)
  have h1: "reverse plain_framework ''autocomplete_light_autocomplete''
      (Some [class_name (fixed_choices [])]) None
      = Inl (NoReverseMatch ''autocomplete_light_autocomplete'')"
    by (simp add: plain_framework_def)
  have h2: "reverse routed_framework ''autocomplete_light_autocomplete''
      (Some [class_name (fixed_choices [])]) None = Inr ''/autocomplete/FixedChoices/''"
    by (simp add: routed_framework_def n)
  from get_absolute_url_routes
    [of plain_framework "fixed_choices []" "''autocomplete_light_autocomplete''"] h1
  have r1: "get_absolute_url plain_framework (fixed_choices []) =
       Inl (ImproperlyConfigured
         (''URL lookup for autocomplete '' @ [CHR 0x27] @ ''FixedChoices'' @ [CHR 0x27] @
          '' failed. Have you included autocomplete_light.urls in your urls.py?''))"
    by (simp only: n)
  from get_absolute_url_routes
    [of routed_framework "fixed_choices []" _ "''/autocomplete/FixedChoices/''"] h2
  have r2: "get_absolute_url routed_framework (fixed_choices []) = Inr ''/autocomplete/FixedChoices/''"
    by blast
  from h1 r1 h2 r2 show ?thesis by blast
qed

text \<open>
  C8. When a route name is configured, \<open>get_add_another_url\<close> resolves it with the
  configured keyword arguments and appends \<^verbatim>\<open>?_popup=1\<close> to the URL. When the route name
  is unset, or is the empty string, it returns \<^verbatim>\<open>None\<close> and raises nothing.
\<close>

theorem get_add_another_url_popup:
  "(add_another_url_name cls = Some n \<and> n \<noteq> [] \<longrightarrow>
      get_add_another_url fw cls =
        and_then (reverse fw n None (add_another_url_kwargs cls))
          (\<lambda>url. Inr (Some (url @ ''?_popup=1''))))
   \<and> (add_another_url_name cls = Some n \<and> n \<noteq> []
        \<and> reverse fw n None (add_another_url_kwargs cls) = Inr url \<longrightarrow>
      get_add_another_url fw cls = Inr (Some (url @ ''?_popup=1'')))
   \<and> (add_another_url_name cls = None \<or> add_another_url_name cls = Some [] \<longrightarrow>
      get_add_another_url fw cls = Inr None)"
  by (auto simp add: get_add_another_url_def)

theorem get_add_another_url_popup_witness:
  "add_another_url_name ((fixed_choices [])\<lparr>add_another_url_name := Some ''add_author''\<rparr>)
     = Some ''add_author''
   \<and> ''add_author'' \<noteq> []
   \<and> get_add_another_url routed_framework
       ((fixed_choices [])\<lparr>add_another_url_name := Some ''add_author''\<rparr>)
     = Inr (Some ''/author/add/?_popup=1'')
   \<and> add_another_url_name (fixed_choices []) = None
   \<and> get_add_another_url routed_framework (fixed_choices []) = Inr None"
proof -
  let ?cls = "(fixed_choices [])\<lparr>add_another_url_name := Some ''add_author''\<rparr>"
  have h1: "add_another_url_name ?cls = Some ''add_author''"
    and h2: "''add_author'' \<noteq> []"
    by simp_all
  have h3: "reverse routed_framework ''add_author'' None (add_another_url_kwargs ?cls)
              = Inr ''/author/add/''"
    by (simp add: routed_framework_def)
  from get_add_another_url_popup [of ?cls "''add_author''" routed_framework "''/author/add/''"]
    h1 h2 h3
  have r1: "get_add_another_url routed_framework ?cls = Inr (Some (''/author/add/'' @ ''?_popup=1''))"
    by blast
  have h4: "add_another_url_name (fixed_choices []) = None"
    by (simp add: fixed_choices_def AutocompleteBase_def)
  from get_add_another_url_popup [of "fixed_choices []" _ routed_framework] h4
  have r2: "get_add_another_url routed_framework (fixed_choices []) = Inr None"
    by blast
  from r1 have "get_add_another_url routed_framework ?cls = Inr (Some ''/author/add/?_popup=1'')"
    by simp
  with h1 h2 h4 r2 show ?thesis by blast
qed

section \<open>Frame\<close>






end
